theory Spec2Isabelle
  imports Main "HOL-Library.Sublist" "HOL-Library.Multiset"
begin

section \<open>Strings\<close>

text \<open>
  Python strings are modelled as \<open>string\<close>, restricted to the characters of the ASCII
  range: a character outside it counts as neither letter, digit nor white space.
  \<open>str.lower\<close> maps the letters \<open>A\<close> to \<open>Z\<close> to \<open>a\<close> to \<open>z\<close> and leaves every other
  character alone.
\<close>

definition case_table :: "(char \<times> char) list" where
  "case_table = zip ''ABCDEFGHIJKLMNOPQRSTUVWXYZ'' ''abcdefghijklmnopqrstuvwxyz''"

definition lower_char :: "char \<Rightarrow> char" where
  "lower_char c = (case map_of case_table c of Some d \<Rightarrow> d | None \<Rightarrow> c)"

definition lower :: "string \<Rightarrow> string" where
  "lower s = map lower_char s"

text \<open>\<open>s.startswith(p)\<close> and \<open>p in s\<close>.\<close>

fun startswith :: "string \<Rightarrow> string \<Rightarrow> bool" where
  "startswith s [] = True"
| "startswith [] (p # ps) = False"
| "startswith (c # cs) (p # ps) = (c = p \<and> startswith cs ps)"

fun contains :: "string \<Rightarrow> string \<Rightarrow> bool" where
  "contains [] p = (p = [])"
| "contains (c # cs) p = (startswith (c # cs) p \<or> contains cs p)"

text \<open>\<open>x or ""\<close> for an optional string: \<open>None\<close> and the empty string both give \<open>""\<close>.\<close>

definition or_empty :: "string option \<Rightarrow> string" where
  "or_empty x = (case x of None \<Rightarrow> [] | Some s \<Rightarrow> s)"

text \<open>\<open>s.split(sep)\<close> for a separator of one character: never an empty list.\<close>

fun split_char :: "char \<Rightarrow> string \<Rightarrow> string list" where
  "split_char sep [] = [[]]"
| "split_char sep (c # cs) =
     (if c = sep then [] # split_char sep cs
      else (case split_char sep cs of
              [] \<Rightarrow> [[c]]
            | w # ws \<Rightarrow> (c # w) # ws))"

text \<open>White space as \<open>str.strip\<close>, \<open>int\<close> and \<open>Decimal\<close> see it (the ASCII part).\<close>

definition is_space :: "char \<Rightarrow> bool" where
  "is_space c \<longleftrightarrow>
     c \<in> set [CHR 0x09, CHR 0x0A, CHR 0x0B, CHR 0x0C, CHR 0x0D,
                CHR 0x1C, CHR 0x1D, CHR 0x1E, CHR 0x1F, CHR 0x20]"

definition strip :: "string \<Rightarrow> string" where
  "strip s = rev (dropWhile is_space (rev (dropWhile is_space s)))"

definition rstrip_char :: "char \<Rightarrow> string \<Rightarrow> string" where
  "rstrip_char c s = rev (dropWhile (\<lambda>x. x = c) (rev s))"

subsection \<open>Decimal digits\<close>

definition is_digit :: "char \<Rightarrow> bool" where
  "is_digit c \<longleftrightarrow> c \<in> set ''0123456789''"

definition digit_val :: "char \<Rightarrow> nat" where
  "digit_val c = (case map_of (zip ''0123456789'' [0, 1, 2, 3, 4, 5, 6, 7, 8, 9]) c of
                    Some d \<Rightarrow> d | None \<Rightarrow> 0)"

definition digit_char :: "nat \<Rightarrow> char" where
  "digit_char d = ''0123456789'' ! (d mod 10)"

definition nat_of_digits :: "string \<Rightarrow> nat" where
  "nat_of_digits ds = foldl (\<lambda>a c. 10 * a + digit_val c) 0 ds"

text \<open>\<open>str(n)\<close> for \<open>n \<ge> 0\<close>.\<close>

function str_nat :: "nat \<Rightarrow> string" where
  "str_nat n = (if n < 10 then [digit_char n] else str_nat (n div 10) @ [digit_char (n mod 10)])"
  by pat_completeness auto
termination
  by (relation "measure id") auto

definition zfill :: "nat \<Rightarrow> nat \<Rightarrow> string" where
  "zfill w n = replicate (w - length (str_nat n)) CHR ''0'' @ str_nat n"

section \<open>Exceptions\<close>

text \<open>
  Every exception the module can raise is a value. \<open>HTTPException\<close> carries the status
  code and the detail text. \<open>RequestValidationError\<close> is the framework's rejection of
  a query parameter outside its declared bounds, \<open>TransportError\<close> any failure of the
  HTTP client (no connection, time-out, a non-2xx status, a body that is not JSON).
  \<open>TimestampOutOfRange\<close> stands for the \<open>ValueError\<close> or \<open>OverflowError\<close> of
  \<open>datetime.fromtimestamp\<close>.
\<close>

datatype error =
    HTTPException nat string
  | RequestValidationError
  | TransportError
  | KeyError string
  | TypeError
  | ValueError
  | InvalidOperation
  | DivisionByZero
  | Overflow
  | TimestampOutOfRange

text \<open>A list comprehension over a call that may raise: the first exception ends it.\<close>

fun map_raise :: "('a \<Rightarrow> error + 'b) \<Rightarrow> 'a list \<Rightarrow> error + 'b list" where
  "map_raise f [] = Inr []"
| "map_raise f (x # xs) =
     (case f x of
        Inl e \<Rightarrow> Inl e
      | Inr y \<Rightarrow> (case map_raise f xs of Inl e \<Rightarrow> Inl e | Inr ys \<Rightarrow> Inr (y # ys)))"

section \<open>\<open>int(s)\<close> for a string\<close>

text \<open>
  White space is stripped, a sign may lead, and the digits may be grouped by single
  underscores. The interpreter's configurable limit on the number of digits of a
  conversion is not part of the model.
\<close>

fun int_digits_ok :: "string \<Rightarrow> bool" where
  "int_digits_ok [] = False"
| "int_digits_ok [c] = is_digit c"
| "int_digits_ok (c # d # cs) =
     (is_digit c \<and> (if d = CHR ''_'' then int_digits_ok cs else int_digits_ok (d # cs)))"

definition py_int :: "string \<Rightarrow> error + int" where
  "py_int s =
     (let t = strip s;
          (neg, body) = (case t of
                           c # r \<Rightarrow> if c = CHR ''-'' then (True, r)
                                    else if c = CHR ''+'' then (False, r) else (False, t)
                         | [] \<Rightarrow> (False, t))
      in if int_digits_ok body
         then (let n = int (nat_of_digits (filter (\<lambda>c. c \<noteq> CHR ''_'') body))
               in Inr (if neg then - n else n))
         else Inl ValueError)"

section \<open>Direction of a transfer\<close>

definition direction :: "string option \<Rightarrow> string option \<Rightarrow> string option \<Rightarrow> string" where
  "direction me from_addr to_addr =
     (let me' = lower (or_empty me) in
      if lower (or_empty from_addr) = me' then ''out''
      else if lower (or_empty to_addr) = me' then ''in''
      else ''other'')"

section \<open>The upstream gateway\<close>

text \<open>
  A raw record of the explorer is a dictionary whose fields are strings, as the explorer
  encodes every field; a field may be absent. The \<open>result\<close> of a body is free text or
  a list of records. The body's \<open>status\<close> and \<open>message\<close> are strings or absent.
\<close>

type_synonym raw_record = "string \<rightharpoonup> string"

datatype payload = Text string | Records "raw_record list"

record body =
  status :: "string option"
  message :: "string option"
  result :: "payload option"

datatype param = PStr string | PInt int

type_synonym query = "string \<rightharpoonup> param"

text \<open>
  What one GET gives: \<open>Failure\<close> when the client raises (transport failure,
  \<open>raise_for_status\<close>, a body that is not JSON), else the parsed body.
\<close>

datatype reply = Failure | Body body

text \<open>
  The surroundings of a request: the configured API key (the module's constant
  \<open>ETHERSCAN_API_KEY\<close>), the explorer as a function from the query sent to its reply,
  and \<open>str\<close> of a non-empty list of records (Python's \<open>repr\<close>, which depends on the
  insertion order of the dictionaries and is left open).
\<close>

record env =
  api_key :: string
  upstream :: "query \<Rightarrow> reply"
  str_records :: "raw_record list \<Rightarrow> string"

text \<open>\<open>str(data.get("result") or "Etherscan NOTOK")\<close>.\<close>

definition notok_detail :: "env \<Rightarrow> payload option \<Rightarrow> string" where
  "notok_detail E r =
     (case r of
        None \<Rightarrow> ''Etherscan NOTOK''
      | Some (Text s) \<Rightarrow> if s = [] then ''Etherscan NOTOK'' else s
      | Some (Records rs) \<Rightarrow> if rs = [] then ''Etherscan NOTOK'' else str_records E rs)"

text \<open>
  \<open>_etherscan\<close> returns the list of the queries it has sent, and either the exception
  raised or the dictionary returned.
\<close>

definition etherscan :: "env \<Rightarrow> query \<Rightarrow> query list \<times> (error + body)" where
  "etherscan E params =
     (if api_key E = [] \<or> startswith (api_key E) ''PASTE_''
      then ([], Inl (HTTPException 500 ''Server is not configured with an Etherscan API key.''))
      else
        (let q = params(''apikey'' \<mapsto> PStr (api_key E)) in
         case upstream E q of
           Failure \<Rightarrow> ([q], Inl TransportError)
         | Body data \<Rightarrow>
             (let st = (case status data of None \<Rightarrow> ''None'' | Some s \<Rightarrow> s);
                  msg = (case message data of None \<Rightarrow> [] | Some s \<Rightarrow> s)
              in ([q],
                  if st = ''0'' \<and> msg = ''NOTOK''
                  then (let detail = notok_detail E (result data) in
                        if contains (lower detail) ''rate limit''
                        then Inl (HTTPException 429 (''Etherscan: '' @ detail))
                        else Inl (HTTPException 502 (''Etherscan error: '' @ detail)))
                  else if st = ''0'' \<and> startswith (lower msg) ''no transactions''
                  then Inr \<lparr>status = Some ''1'', message = None, result = Some (Records [])\<rparr>
                  else Inr data))))"

text \<open>A configured key passes the check at the head of \<open>_etherscan\<close>.\<close>

definition configured :: "env \<Rightarrow> bool" where
  "configured E \<longleftrightarrow> api_key E \<noteq> [] \<and> \<not> startswith (api_key E) ''PASTE_''"

text \<open>The body the explorer returns to the query that \<open>_etherscan\<close> sends for \<open>params\<close>.\<close>

definition answers :: "env \<Rightarrow> query \<Rightarrow> body \<Rightarrow> bool" where
  "answers E params data \<longleftrightarrow>
     upstream E (params(''apikey'' \<mapsto> PStr (api_key E))) = Body data"

definition status_str :: "body \<Rightarrow> string" where
  "status_str data = (case status data of None \<Rightarrow> ''None'' | Some s \<Rightarrow> s)"

definition message_str :: "body \<Rightarrow> string" where
  "message_str data = (case message data of None \<Rightarrow> [] | Some s \<Rightarrow> s)"

section \<open>Case-insensitive comparison, as the specification words it\<close>

text \<open>
  Two characters are the same letter when they are equal or are the two cases of one
  letter. The code compares through \<open>lower\<close>; the lemmas below show that this is the
  same thing.
\<close>

definition same_letter :: "char \<Rightarrow> char \<Rightarrow> bool" where
  "same_letter c d \<longleftrightarrow> c = d \<or> (c, d) \<in> set case_table \<or> (d, c) \<in> set case_table"

definition ci_eq :: "string \<Rightarrow> string \<Rightarrow> bool" where
  "ci_eq a b \<longleftrightarrow> list_all2 same_letter a b"

definition ci_starts :: "string \<Rightarrow> string \<Rightarrow> bool" where
  "ci_starts s p \<longleftrightarrow> length p \<le> length s \<and> ci_eq (take (length p) s) p"

definition ci_contains :: "string \<Rightarrow> string \<Rightarrow> bool" where
  "ci_contains s p \<longleftrightarrow> (\<exists>i \<in> set [0..<Suc (length s)]. ci_starts (drop i s) p)"

text \<open>Environments for concrete runs: the explorer gives one fixed reply.\<close>

definition fixed_env :: "reply \<Rightarrow> env" where
  "fixed_env r = \<lparr>api_key = ''KEY'', upstream = (\<lambda>q. r), str_records = (\<lambda>rs. ''[...]'')\<rparr>"

definition text_body :: "string \<Rightarrow> string \<Rightarrow> string \<Rightarrow> body" where
  "text_body st msg res = \<lparr>status = Some st, message = Some msg, result = Some (Text res)\<rparr>"

section \<open>Decimal arithmetic\<close>

text \<open>
  The values of Python's \<open>decimal.Decimal\<close>: a finite number is a sign (\<open>True\<close> for
  minus), a coefficient and an exponent, standing for \<open>\<plusminus> coefficient * 10 ^ exponent\<close>;
  the others are the infinities and the NaNs (sign, signalling or quiet, payload digits).
  The module sets the precision of the context to 60 digits; the other settings are the
  defaults: exponents between \<open>-999999\<close> and \<open>999999\<close>, rounding half to even, and
  traps on invalid operations, division by zero and overflow.
\<close>

datatype decimal = Finite bool nat int | Infinite bool | NaN bool bool string

definition prec :: nat where
  "prec = 60"

definition Emax :: int where
  "Emax = 999999"

definition Emin :: int where
  "Emin = - 999999"

definition Etiny :: int where
  "Etiny = Emin - int prec + 1"

definition Etop :: int where
  "Etop = Emax - int prec + 1"

definition ndigits :: "nat \<Rightarrow> nat" where
  "ndigits n = length (str_nat n)"

text \<open>Dropping the last \<open>k\<close> digits of a coefficient, rounding half to even.\<close>

definition round_half_even :: "nat \<Rightarrow> nat \<Rightarrow> nat" where
  "round_half_even c k =
     (let q = c div 10 ^ k; r = c mod 10 ^ k
      in if 2 * r > 10 ^ k \<or> (2 * r = 10 ^ k \<and> odd q) then q + 1 else q)"

definition lstrip_zeros :: "string \<Rightarrow> string" where
  "lstrip_zeros s = dropWhile (\<lambda>c. c = CHR ''0'') s"

text \<open>A payload longer than the precision keeps its last 60 digits.\<close>

definition fix_nan :: "bool \<Rightarrow> bool \<Rightarrow> string \<Rightarrow> decimal" where
  "fix_nan s sig payload =
     (if length payload > prec
      then NaN s sig (lstrip_zeros (drop (length payload - prec) payload))
      else NaN s sig payload)"

text \<open>Rounding a value to the context (\<open>Decimal._fix\<close>).\<close>

fun fix_ctx :: "decimal \<Rightarrow> error + decimal" where
  "fix_ctx (NaN s sig payload) = Inr (fix_nan s sig payload)"
| "fix_ctx (Infinite s) = Inr (Infinite s)"
| "fix_ctx (Finite s c e) =
     (if c = 0 then Inr (Finite s 0 (min (max e Etiny) Emax))
      else
        (let exp_min0 = int (ndigits c) + e - int prec in
         if exp_min0 > Etop then Inl Overflow
         else
           (let exp_min = (if exp_min0 < Etiny then Etiny else exp_min0) in
            if e < exp_min
            then (let coeff = round_half_even c (nat (exp_min - e));
                      (coeff', exp') = (if ndigits coeff > prec then (coeff div 10, exp_min + 1)
                                        else (coeff, exp_min))
                  in if exp' > Etop then Inl Overflow else Inr (Finite s coeff' exp'))
            else Inr (Finite s c e))))"

text \<open>An exact quotient moves towards the ideal exponent by dropping zeros.\<close>

function to_ideal :: "nat \<Rightarrow> int \<Rightarrow> int \<Rightarrow> nat \<times> int" where
  "to_ideal coeff e ideal =
     (if e < ideal \<and> coeff mod 10 = 0 then to_ideal (coeff div 10) (e + 1) ideal
      else (coeff, e))"
  by pat_completeness auto
termination
  by (relation "measure (\<lambda>(coeff, e, ideal). nat (ideal - e))") auto

text \<open>Division (\<open>Decimal.__truediv__\<close>).\<close>

fun truediv :: "decimal \<Rightarrow> decimal \<Rightarrow> error + decimal" where
  "truediv (NaN s sig payload) b =
     (if sig then Inl InvalidOperation
      else (case b of NaN s' True payload' \<Rightarrow> Inl InvalidOperation
                    | _ \<Rightarrow> Inr (fix_nan s sig payload)))"
| "truediv a (NaN s sig payload) =
     (if sig then Inl InvalidOperation else Inr (fix_nan s sig payload))"
| "truediv (Infinite s) (Infinite s') = Inl InvalidOperation"
| "truediv (Infinite s) (Finite s' c' e') = Inr (Infinite (s \<noteq> s'))"
| "truediv (Finite s c e) (Infinite s') = Inr (Finite (s \<noteq> s') 0 Etiny)"
| "truediv (Finite s c e) (Finite s' c' e') =
     (if c' = 0 then (if c = 0 then Inl InvalidOperation else Inl DivisionByZero)
      else if c = 0 then fix_ctx (Finite (s \<noteq> s') 0 (e - e'))
      else
        (let shift = int (ndigits c') - int (ndigits c) + int prec + 1;
             ex = e - e' - shift;
             (coeff, remainder) =
               (if shift \<ge> 0 then ((c * 10 ^ nat shift) div c', (c * 10 ^ nat shift) mod c')
                else (c div (c' * 10 ^ nat (- shift)), c mod (c' * 10 ^ nat (- shift))));
             (coeff', ex') =
               (if remainder \<noteq> 0 then (if coeff mod 5 = 0 then coeff + 1 else coeff, ex)
                else to_ideal coeff ex (e - e'))
         in fix_ctx (Finite (s \<noteq> s') coeff' ex')))"

text \<open>
  \<open>Decimal(10) ** Decimal(d)\<close> for an integer \<open>d \<ge> 0\<close>: the exact power, written with
  up to 60 zeros and then rounded to the context; beyond the largest exponent it overflows.
\<close>

definition pow10 :: "int \<Rightarrow> error + decimal" where
  "pow10 d =
     (if d > Emax then Inl Overflow
      else fix_ctx (Finite False (10 ^ min (nat d) 60) (d - int (min (nat d) 60))))"

text \<open>\<open>Decimal.normalize\<close>: round to the context, then drop the trailing zeros.\<close>

function strip_zeros :: "nat \<Rightarrow> int \<Rightarrow> nat \<times> int" where
  "strip_zeros c e =
     (if c \<noteq> 0 \<and> c mod 10 = 0 \<and> e < Emax then strip_zeros (c div 10) (e + 1) else (c, e))"
  by pat_completeness auto
termination
  by (relation "measure (\<lambda>(c, e). c)") auto

definition normalize_dec :: "decimal \<Rightarrow> error + decimal" where
  "normalize_dec a =
     (case a of
        NaN s sig payload \<Rightarrow> if sig then Inl InvalidOperation else Inr (fix_nan s sig payload)
      | _ \<Rightarrow>
        (case fix_ctx a of
           Inl err \<Rightarrow> Inl err
         | Inr (Finite s c e) \<Rightarrow>
             if c = 0 then Inr (Finite s 0 0)
             else (case strip_zeros c e of (c', e') \<Rightarrow> Inr (Finite s c' e'))
         | Inr dup \<Rightarrow> Inr dup))"

text \<open>\<open>format(d, "f")\<close>.\<close>

definition sign_str :: "bool \<Rightarrow> string" where
  "sign_str s = (if s then ''-'' else [])"

fun format_f :: "decimal \<Rightarrow> string" where
  "format_f (Infinite s) = sign_str s @ ''Infinity''"
| "format_f (NaN s sig payload) = sign_str s @ (if sig then ''sNaN'' else ''NaN'') @ payload"
| "format_f (Finite s c e0) =
     (let e = (if c = 0 \<and> e0 > 0 then 0 else e0);
          ds = str_nat c;
          dotplace = e + int (length ds);
          (intpart, fracpart) =
            (if dotplace < 0 then (''0'', replicate (nat (- dotplace)) CHR ''0'' @ ds)
             else if dotplace > int (length ds)
             then (ds @ replicate (nat (dotplace - int (length ds))) CHR ''0'', [])
             else (if take (nat dotplace) ds = [] then ''0'' else take (nat dotplace) ds,
                   drop (nat dotplace) ds))
      in sign_str s @ intpart @ (if fracpart = [] then [] else CHR ''.'' # fracpart))"

text \<open>
  \<open>Decimal(raw)\<close> for a string: white space is stripped and underscores are dropped; what
  remains is a sign, then digits with an optional point and an optional exponent, or an
  infinity, or a NaN with its payload. The conversion is exact.
\<close>

definition all_digits :: "string \<Rightarrow> bool" where
  "all_digits s = list_all is_digit s"

definition parse_exponent :: "string \<Rightarrow> int option" where
  "parse_exponent r =
     (case r of
        [] \<Rightarrow> Some 0
      | c # r1 \<Rightarrow>
          if c = CHR ''e'' \<or> c = CHR ''E'' then
            (let (neg, ds) = (case r1 of
                                x # r2 \<Rightarrow> if x = CHR ''-'' then (True, r2)
                                          else if x = CHR ''+'' then (False, r2) else (False, r1)
                              | [] \<Rightarrow> (False, r1))
             in if ds \<noteq> [] \<and> all_digits ds
                then Some (if neg then - int (nat_of_digits ds) else int (nat_of_digits ds))
                else None)
          else None)"

definition parse_number :: "bool \<Rightarrow> string \<Rightarrow> decimal option" where
  "parse_number s body =
     (let intpart = takeWhile is_digit body;
          r1 = dropWhile is_digit body;
          (has_point, fracpart, r2) =
            (case r1 of
               c # r \<Rightarrow> if c = CHR ''.'' then (True, takeWhile is_digit r, dropWhile is_digit r)
                        else (False, [], r1)
             | [] \<Rightarrow> (False, [], r1))
      in if intpart = [] \<and> fracpart = [] then None
         else (case parse_exponent r2 of
                 None \<Rightarrow> None
               | Some ex \<Rightarrow>
                   Some (Finite s (nat_of_digits (intpart @ fracpart)) (ex - int (length fracpart)))))"

definition parse_special :: "bool \<Rightarrow> string \<Rightarrow> decimal option" where
  "parse_special s body =
     (let l = lower body in
      if l = ''inf'' \<or> l = ''infinity'' then Some (Infinite s)
      else if startswith l ''nan'' \<and> all_digits (drop 3 l)
      then Some (NaN s False (lstrip_zeros (drop 3 l)))
      else if startswith l ''snan'' \<and> all_digits (drop 4 l)
      then Some (NaN s True (lstrip_zeros (drop 4 l)))
      else None)"

definition Decimal :: "string \<Rightarrow> error + decimal" where
  "Decimal raw =
     (let t = filter (\<lambda>c. c \<noteq> CHR ''_'') (strip raw);
          (s, body) = (case t of
                         c # r \<Rightarrow> if c = CHR ''-'' then (True, r)
                                  else if c = CHR ''+'' then (False, r) else (False, t)
                       | [] \<Rightarrow> (False, t))
      in case parse_number s body of
           Some d \<Rightarrow> Inr d
         | None \<Rightarrow> (case parse_special s body of
                      Some d \<Rightarrow> Inr d
                    | None \<Rightarrow> Inl InvalidOperation))"

section \<open>The amount formatter\<close>

definition fmt_amount :: "string \<Rightarrow> int \<Rightarrow> error + string" where
  "fmt_amount raw decimals =
     (case (if decimals \<ge> 0
            then (case Decimal raw of
                    Inl err \<Rightarrow> Inl err
                  | Inr a \<Rightarrow> (case pow10 decimals of
                               Inl err \<Rightarrow> Inl err
                             | Inr p \<Rightarrow> truediv a p))
            else Decimal raw) of
        Inl err \<Rightarrow> Inl err
      | Inr d \<Rightarrow>
          (case normalize_dec d of
             Inl err \<Rightarrow> Inl err
           | Inr n \<Rightarrow>
               (let s = format_f n;
                    s' = (if CHR ''.'' \<in> set s
                          then rstrip_char CHR ''.'' (rstrip_char CHR ''0'' s) else s)
                in Inr (if s' = [] then ''0'' else s'))))"

definition wei_to_eth :: "string \<Rightarrow> error + string" where
  "wei_to_eth wei = fmt_amount wei 18"

section \<open>Time stamps\<close>

text \<open>
  \<open>s.replace(old, new)\<close> for a non-empty \<open>old\<close>: every occurrence, from the left.
\<close>

function replace :: "string \<Rightarrow> string \<Rightarrow> string \<Rightarrow> string" where
  "replace s old new =
     (if s = [] \<or> old = [] then s
      else if startswith s old then new @ replace (drop (length old) s) old new
      else hd s # replace (tl s) old new)"
  by pat_completeness auto
termination
  by (relation "measure (\<lambda>(s, old, new). length s)") auto

text \<open>The date of a day count from 1970-01-01 in the proleptic Gregorian calendar.\<close>

definition civil_from_days :: "int \<Rightarrow> int \<times> int \<times> int" where
  "civil_from_days days =
     (let z = days + 719468;
          era = z div 146097;
          doe = z mod 146097;
          yoe = (doe - doe div 1460 + doe div 36524 - doe div 146096) div 365;
          doy = doe - (365 * yoe + yoe div 4 - yoe div 100);
          mp = (5 * doy + 2) div 153;
          d = doy - (153 * mp + 2) div 5 + 1;
          m = (if mp < 10 then mp + 3 else mp - 9);
          y = yoe + era * 400 + (if m \<le> 2 then 1 else 0)
      in (y, m, d))"

text \<open>
  \<open>datetime.fromtimestamp(ts, tz=timezone.utc).isoformat()\<close>: the years 1 to 9999 only.
\<close>

definition isoformat_utc :: "int \<Rightarrow> error + string" where
  "isoformat_utc ts =
     (if ts < - 62135596800 \<or> ts > 253402300799 then Inl TimestampOutOfRange
      else
        (let (y, m, d) = civil_from_days (ts div 86400);
             secs = ts mod 86400
         in Inr (zfill 4 (nat y) @ ''-'' @ zfill 2 (nat m) @ ''-'' @ zfill 2 (nat d) @ ''T''
                 @ zfill 2 (nat (secs div 3600)) @ '':'' @ zfill 2 (nat (secs mod 3600 div 60))
                 @ '':'' @ zfill 2 (nat (secs mod 60)) @ ''+00:00'')))"

definition iso_utc :: "int \<Rightarrow> error + string" where
  "iso_utc ts =
     (case isoformat_utc ts of
        Inl err \<Rightarrow> Inl err
      | Inr s \<Rightarrow> Inr (replace s ''+00:00'' ''Z''))"

section \<open>The item normalizers\<close>

text \<open>
  A normalized item. The keys that only one of the two kinds of item has are optional
  fields: \<open>tx_status\<close> is \<open>None\<close> for an item without the key \<open>status\<close>, and
  \<open>tokenContract\<close> is \<open>None\<close> for an item without that key (\<open>Some None\<close> is the key
  with the value \<open>None\<close>).
\<close>

record item =
  tx_type :: string
  timestamp :: int
  time_utc :: string
  tx_hash :: string
  tx_from :: "string option"
  tx_to :: "string option"
  tx_direction :: string
  amount :: string
  symbol :: string
  functionName :: string
  tx_status :: "string option"
  tokenContract :: "string option option"
  link :: string

text \<open>\<open>it.get(key, default)\<close> and \<open>it[key]\<close>.\<close>

definition get_default :: "raw_record \<Rightarrow> string \<Rightarrow> string \<Rightarrow> string" where
  "get_default it k dflt = (case it k of None \<Rightarrow> dflt | Some v \<Rightarrow> v)"

definition subscript :: "raw_record \<Rightarrow> string \<Rightarrow> error + string" where
  "subscript it k = (case it k of None \<Rightarrow> Inl (KeyError k) | Some v \<Rightarrow> Inr v)"

definition normalize_eth_item :: "string \<Rightarrow> raw_record \<Rightarrow> error + item" where
  "normalize_eth_item me it =
     (case subscript it ''timeStamp'' of
        Inl err \<Rightarrow> Inl err
      | Inr raw_ts \<Rightarrow>
     (case py_int raw_ts of
        Inl err \<Rightarrow> Inl err
      | Inr ts \<Rightarrow>
     (let is_error = (it ''isError'' = Some ''1'');
          st = (if is_error then ''failed''
                else if it ''txreceipt_status'' = Some ''1'' then ''success'' else ''unknown'');
          fn = hd (split_char CHR ''('' (or_empty (it ''functionName'')))
      in
     (case iso_utc ts of
        Inl err \<Rightarrow> Inl err
      | Inr t \<Rightarrow>
     (case subscript it ''hash'' of
        Inl err \<Rightarrow> Inl err
      | Inr h \<Rightarrow>
     (case wei_to_eth (get_default it ''value'' ''0'') of
        Inl err \<Rightarrow> Inl err
      | Inr a \<Rightarrow>
          Inr \<lparr>tx_type = ''ETH'', timestamp = ts, time_utc = t, tx_hash = h,
               tx_from = it ''from'', tx_to = it ''to'',
               tx_direction = direction (Some me) (Some (get_default it ''from'' []))
                                (Some (get_default it ''to'' [])),
               amount = a, symbol = ''ETH'', functionName = fn, tx_status = Some st,
               tokenContract = None, link = ''https://etherscan.io/tx/'' @ h\<rparr>))))))"

definition normalize_erc20_item :: "string \<Rightarrow> raw_record \<Rightarrow> error + item" where
  "normalize_erc20_item me it =
     (case subscript it ''timeStamp'' of
        Inl err \<Rightarrow> Inl err
      | Inr raw_ts \<Rightarrow>
     (case py_int raw_ts of
        Inl err \<Rightarrow> Inl err
      | Inr ts \<Rightarrow>
     (case (if or_empty (it ''tokenDecimal'') = [] then Inr 0
            else py_int (or_empty (it ''tokenDecimal''))) of
        Inl err \<Rightarrow> Inl err
      | Inr decimals \<Rightarrow>
     (let sym = (if or_empty (it ''tokenSymbol'') = [] then ''TOKEN''
                 else or_empty (it ''tokenSymbol''))
      in
     (case iso_utc ts of
        Inl err \<Rightarrow> Inl err
      | Inr t \<Rightarrow>
     (case subscript it ''hash'' of
        Inl err \<Rightarrow> Inl err
      | Inr h \<Rightarrow>
     (case fmt_amount (get_default it ''value'' ''0'') decimals of
        Inl err \<Rightarrow> Inl err
      | Inr a \<Rightarrow>
          Inr \<lparr>tx_type = ''ERC20'', timestamp = ts, time_utc = t, tx_hash = h,
               tx_from = it ''from'', tx_to = it ''to'',
               tx_direction = direction (Some me) (Some (get_default it ''from'' []))
                                (Some (get_default it ''to'' [])),
               amount = a, symbol = sym, functionName = [], tx_status = None,
               tokenContract = Some (it ''contractAddress''),
               link = ''https://etherscan.io/tx/'' @ h\<rparr>)))))))"

section \<open>The request handler\<close>

text \<open>
  \<open>ADDR_RE.match(s)\<close> for the pattern \<open>^0x[0-9a-fA-F]{40}$\<close>: in Python, \<open>$\<close> matches at
  the end of the string and also just before a line feed that ends it.
\<close>

definition is_hex :: "char \<Rightarrow> bool" where
  "is_hex c \<longleftrightarrow> c \<in> set ''0123456789abcdefABCDEF''"

definition ADDR_RE_match :: "string \<Rightarrow> bool" where
  "ADDR_RE_match s \<longleftrightarrow>
     startswith s ''0x''
     \<and> length (drop 2 s) \<ge> 40
     \<and> list_all is_hex (take 40 (drop 2 s))
     \<and> (drop 42 s = [] \<or> drop 42 s = [CHR 0x0A])"

definition is_valid_address :: "string option \<Rightarrow> bool" where
  "is_valid_address addr = ADDR_RE_match (or_empty addr)"

text \<open>
  The comprehension over \<open>data.get("result", [])\<close>: a list of records is normalized one
  by one; over a text the elements are its characters, and subscripting the first of
  them with a field name raises \<open>TypeError\<close>.
\<close>

definition normalize_all ::
  "(raw_record \<Rightarrow> error + item) \<Rightarrow> payload option \<Rightarrow> error + item list" where
  "normalize_all f r =
     (case r of
        None \<Rightarrow> Inr []
      | Some (Records rs) \<Rightarrow> map_raise f rs
      | Some (Text s) \<Rightarrow> if s = [] then Inr [] else Inl TypeError)"

text \<open>
  \<open>combined.sort(key=lambda x: x["timestamp"], reverse=True)\<close>: Python's sort is stable,
  also under \<open>reverse=True\<close>, which makes the result the stable sort by the negated key.
\<close>

definition sort_desc :: "item list \<Rightarrow> item list" where
  "sort_desc xs = sort_key (\<lambda>x. - timestamp x) xs"

record feed =
  feed_address :: string
  returned :: nat
  count_ETH :: nat
  count_ERC20 :: nat
  items :: "item list"

definition txlist_params :: "string \<Rightarrow> int \<Rightarrow> query" where
  "txlist_params address limit =
     [''module'' \<mapsto> PStr ''account'', ''action'' \<mapsto> PStr ''txlist'',
      ''address'' \<mapsto> PStr address, ''startblock'' \<mapsto> PInt 0, ''endblock'' \<mapsto> PInt 99999999,
      ''page'' \<mapsto> PInt 1, ''offset'' \<mapsto> PInt limit, ''sort'' \<mapsto> PStr ''desc'']"

definition tokentx_params :: "string \<Rightarrow> int \<Rightarrow> query" where
  "tokentx_params address limit =
     [''module'' \<mapsto> PStr ''account'', ''action'' \<mapsto> PStr ''tokentx'',
      ''address'' \<mapsto> PStr address,
      ''page'' \<mapsto> PInt 1, ''offset'' \<mapsto> PInt limit, ''sort'' \<mapsto> PStr ''desc'']"

text \<open>
  The detail of the 400 error holds three characters outside ASCII, given here by the
  bytes of their UTF-8 encoding.
\<close>

definition invalid_address_detail :: string where
  "invalid_address_detail =
     ''Invalid address. Expected a 0x''
     @ [CHR 0xC3, CHR 0xA2, CHR 0xE2, CHR 0x82, CHR 0xAC, CHR 0xC2, CHR 0xA6]
     @ '' EVM address.''"

text \<open>
  The handler, with the bounds that the framework enforces on \<open>limit\<close> before the body
  runs. It returns the queries sent to the explorer, in order, and the outcome.
\<close>

definition get_transactions :: "env \<Rightarrow> string \<Rightarrow> int \<Rightarrow> query list \<times> (error + feed)" where
  "get_transactions E address limit =
     (if limit < 1 \<or> limit > 200 then ([], Inl RequestValidationError)
      else if \<not> is_valid_address (Some address)
      then ([], Inl (HTTPException 400 invalid_address_detail))
      else
        (case etherscan E (txlist_params address limit) of
           (calls1, Inl err) \<Rightarrow> (calls1, Inl err)
         | (calls1, Inr txlist) \<Rightarrow>
        (case normalize_all (normalize_eth_item address) (result txlist) of
           Inl err \<Rightarrow> (calls1, Inl err)
         | Inr eth_items \<Rightarrow>
        (case etherscan E (tokentx_params address limit) of
           (calls2, Inl err) \<Rightarrow> (calls1 @ calls2, Inl err)
         | (calls2, Inr tokentx) \<Rightarrow>
        (case normalize_all (normalize_erc20_item address) (result tokentx) of
           Inl err \<Rightarrow> (calls1 @ calls2, Inl err)
         | Inr erc20_items \<Rightarrow>
             (let combined = eth_items @ erc20_items;
                  latest = take (nat limit) (sort_desc combined)
              in (calls1 @ calls2,
                  Inr \<lparr>feed_address = address, returned = length latest,
                       count_ETH = length (filter (\<lambda>x. tx_type x = ''ETH'') latest),
                       count_ERC20 = length (filter (\<lambda>x. tx_type x = ''ERC20'') latest),
                       items = latest\<rparr>)))))))"

section \<open>Properties\<close>

lemma etherscan_body:
  assumes "configured E" and "answers E params data"
  shows "snd (etherscan E params) =
     (if status_str data = ''0'' \<and> message_str data = ''NOTOK''
      then (if contains (lower (notok_detail E (result data))) ''rate limit''
            then Inl (HTTPException 429 (''Etherscan: '' @ notok_detail E (result data)))
            else Inl (HTTPException 502 (''Etherscan error: '' @ notok_detail E (result data))))
      else if status_str data = ''0'' \<and> startswith (lower (message_str data)) ''no transactions''
      then Inr \<lparr>status = Some ''1'', message = None, result = Some (Records [])\<rparr>
      else Inr data)"
  using assms
  by (simp add: etherscan_def configured_def answers_def status_str_def message_str_def Let_def)


subsection \<open>Comparing through \<open>lower\<close>\<close>

lemma case_table_fst: "map fst case_table = ''ABCDEFGHIJKLMNOPQRSTUVWXYZ''"
  by (simp add: case_table_def)

lemma case_table_snd: "map snd case_table = ''abcdefghijklmnopqrstuvwxyz''"
  by (simp add: case_table_def)

lemma distinct_fst_case_table: "distinct (map fst case_table)"
  unfolding case_table_fst by simp

lemma distinct_snd_case_table: "distinct (map snd case_table)"
  unfolding case_table_snd by simp

lemma case_table_disjoint: "set (map fst case_table) \<inter> set (map snd case_table) = {}"
  unfolding case_table_fst case_table_snd by simp

lemma case_table_lower:
  assumes "(c, d) \<in> set case_table"
  shows "lower_char c = d \<and> lower_char d = d"
proof -
  have "map_of case_table c = Some d"
    using assms distinct_fst_case_table by (rule map_of_is_SomeI [rotated])
  then have one: "lower_char c = d"
    by (simp add: lower_char_def)
  have "d \<in> set (map snd case_table)"
    using assms by force
  with case_table_disjoint have "d \<notin> set (map fst case_table)"
    by blast
  then have "map_of case_table d = None"
    by (simp add: map_of_eq_None_iff)
  then have "lower_char d = d"
    by (simp add: lower_char_def)
  with one show ?thesis by simp
qed

lemma lower_char_changes: "lower_char c \<noteq> c \<Longrightarrow> (c, lower_char c) \<in> set case_table"
  unfolding lower_char_def by (auto split: option.splits dest: map_of_SomeD)

lemma case_table_inj:
  assumes "(c, x) \<in> set case_table" and "(d, x) \<in> set case_table"
  shows "c = d"
proof -
  have "inj_on snd (set case_table)"
    using distinct_snd_case_table by (simp add: distinct_map)
  from inj_onD [OF this _ assms] show ?thesis by simp
qed

lemma lower_char_eq_iff: "lower_char c = lower_char d \<longleftrightarrow> same_letter c d"
proof
  assume eq: "lower_char c = lower_char d"
  show "same_letter c d"
  proof (cases "lower_char c = c")
    case True
    show ?thesis
    proof (cases "lower_char d = d")
      case True
      with \<open>lower_char c = c\<close> eq show ?thesis by (simp add: same_letter_def)
    next
      case False
      then have "(d, lower_char d) \<in> set case_table" by (rule lower_char_changes)
      with eq True show ?thesis by (simp add: same_letter_def)
    qed
  next
    case False
    then have c: "(c, lower_char c) \<in> set case_table" by (rule lower_char_changes)
    show ?thesis
    proof (cases "lower_char d = d")
      case True
      with c eq show ?thesis by (simp add: same_letter_def)
    next
      case False
      then have "(d, lower_char d) \<in> set case_table" by (rule lower_char_changes)
      with c eq have "c = d" by (auto intro: case_table_inj)
      then show ?thesis by (simp add: same_letter_def)
    qed
  qed
next
  assume "same_letter c d"
  then show "lower_char c = lower_char d"
    unfolding same_letter_def using case_table_lower by metis
qed

lemma lower_eq_iff: "lower a = lower b \<longleftrightarrow> ci_eq a b"
proof (induction a arbitrary: b)
  case Nil
  then show ?case by (simp add: lower_def ci_eq_def)
next
  case (Cons c cs)
  then show ?case
    by (cases b) (auto simp: lower_def ci_eq_def lower_char_eq_iff)
qed

lemma lower_idem: "lower (lower s) = lower s"
proof -
  have "lower_char (lower_char c) = lower_char c" for c
    using case_table_lower lower_char_changes by metis
  then show ?thesis by (simp add: lower_def)
qed

lemma startswith_take: "startswith s p \<longleftrightarrow> length p \<le> length s \<and> take (length p) s = p"
  by (induction s p rule: startswith.induct) auto

lemma startswith_lower:
  assumes "lower p = p"
  shows "startswith (lower s) p \<longleftrightarrow> ci_starts s p"
proof -
  have "take (length p) (lower s) = lower (take (length p) s)"
    by (simp add: lower_def take_map)
  then have "take (length p) (lower s) = p \<longleftrightarrow> ci_eq (take (length p) s) p"
    using assms lower_eq_iff by metis
  then show ?thesis
    by (simp add: startswith_take ci_starts_def lower_def)
qed

lemma contains_drop: "contains s p \<longleftrightarrow> (\<exists>i \<le> length s. startswith (drop i s) p)"
proof (induction s)
  case Nil
  then show ?case by (cases p) auto
next
  case (Cons c cs)
  have "(\<exists>i \<le> length (c # cs). startswith (drop i (c # cs)) p)
        \<longleftrightarrow> startswith (c # cs) p \<or> (\<exists>i \<le> length cs. startswith (drop i cs) p)"
  proof
    assume "\<exists>i \<le> length (c # cs). startswith (drop i (c # cs)) p"
    then obtain i where i: "i \<le> length (c # cs)" "startswith (drop i (c # cs)) p" by blast
    show "startswith (c # cs) p \<or> (\<exists>i \<le> length cs. startswith (drop i cs) p)"
    proof (cases i)
      case 0
      with i show ?thesis by simp
    next
      case (Suc j)
      with i show ?thesis by auto
    qed
  next
    assume "startswith (c # cs) p \<or> (\<exists>i \<le> length cs. startswith (drop i cs) p)"
    then show "\<exists>i \<le> length (c # cs). startswith (drop i (c # cs)) p"
    proof
      assume "startswith (c # cs) p"
      then have "startswith (drop 0 (c # cs)) p" by simp
      then show ?thesis by blast
    next
      assume "\<exists>i \<le> length cs. startswith (drop i cs) p"
      then obtain i where "i \<le> length cs" "startswith (drop i cs) p" by blast
      then have "Suc i \<le> length (c # cs)" "startswith (drop (Suc i) (c # cs)) p" by simp_all
      then show ?thesis by blast
    qed
  qed
  with Cons show ?case by simp
qed

lemma contains_lower:
  assumes "lower p = p"
  shows "contains (lower s) p \<longleftrightarrow> ci_contains s p"
proof -
  have "drop i (lower s) = lower (drop i s)" for i
    by (simp add: lower_def drop_map)
  then have "startswith (drop i (lower s)) p \<longleftrightarrow> ci_starts (drop i s) p" for i
    using startswith_lower [OF assms] by simp
  moreover have "(\<exists>i \<in> set [0..<Suc (length s)]. ci_starts (drop i s) p)
      \<longleftrightarrow> (\<exists>i \<le> length s. ci_starts (drop i s) p)"
    by (simp only: set_upt atLeastLessThan_iff less_Suc_eq_le Bex_def) simp
  ultimately show ?thesis
    by (simp add: contains_drop ci_contains_def lower_def)
qed

subsection \<open>The gateway\<close>

lemma ci_starts_length: "ci_starts s p \<Longrightarrow> length p \<le> length s"
  by (simp add: ci_starts_def)

lemma lower_rate_limit: "lower ''rate limit'' = ''rate limit''"
  by (simp add: lower_def lower_char_def case_table_def)

lemma lower_no_transactions: "lower ''no transactions'' = ''no transactions''"
  by (simp add: lower_def lower_char_def case_table_def)

lemma configured_fixed_env: "configured (fixed_env r)"
  by (simp add: configured_def fixed_env_def)

lemma answers_fixed_env: "answers (fixed_env (Body b)) params b"
  by (simp add: answers_def fixed_env_def)

text \<open>
  C1, as the code has it: a body that is neither the \<open>NOTOK\<close> error nor the
  no-transactions reply is returned unchanged as the result of \<open>_etherscan\<close>, whatever its
  status; no exception is raised for it.
\<close>

theorem etherscan_returns_other_bodies:
  assumes "configured E" and "answers E params data"
    and "\<not> (status_str data = ''0'' \<and> message_str data = ''NOTOK'')"
    and "\<not> (status_str data = ''0'' \<and> ci_starts (message_str data) ''no transactions'')"
  shows "snd (etherscan E params) = Inr data"
  using assms etherscan_body [of E params data]
  by (auto simp: startswith_lower [OF lower_no_transactions])

theorem etherscan_returns_other_bodies_witness:
  "snd (etherscan (fixed_env (Body (text_body ''0'' ''Query Timeout'' ''try again''))) Map.empty)
     = Inr (text_body ''0'' ''Query Timeout'' ''try again'')"
  using etherscan_returns_other_bodies
    [of "fixed_env (Body (text_body ''0'' ''Query Timeout'' ''try again''))" Map.empty
        "text_body ''0'' ''Query Timeout'' ''try again''"]
  by (simp add: configured_fixed_env answers_fixed_env status_str_def message_str_def
      text_body_def ci_starts_def)

text \<open>
  C1 as stated fails: the body with status \<open>"0"\<close>, message \<open>"Query Timeout"\<close> and result
  \<open>"try again"\<close> is covered by neither rule, and \<open>_etherscan\<close> returns it as a success.
\<close>

theorem etherscan_other_status_counterexample:
  "status_str (text_body ''0'' ''Query Timeout'' ''try again'') = ''0''
   \<and> message_str (text_body ''0'' ''Query Timeout'' ''try again'') \<noteq> ''NOTOK''
   \<and> \<not> startswith (lower (message_str (text_body ''0'' ''Query Timeout'' ''try again'')))
          ''no transactions''
   \<and> snd (etherscan (fixed_env (Body (text_body ''0'' ''Query Timeout'' ''try again''))) Map.empty)
       = Inr (text_body ''0'' ''Query Timeout'' ''try again'')"
  by (simp add: etherscan_def fixed_env_def text_body_def status_str_def message_str_def
      lower_def lower_char_def case_table_def)

text \<open>
  C4: a body with status \<open>"0"\<close> and message exactly \<open>"NOTOK"\<close> makes \<open>_etherscan\<close> fail,
  with code 429 when the detail contains \<open>"rate limit"\<close> in any case and with code 502
  otherwise; the detail carried is the free-text result (for an empty or absent result,
  the placeholder \<open>"Etherscan NOTOK"\<close>).
\<close>

theorem etherscan_notok:
  assumes "configured E" and "answers E params data"
    and "status_str data = ''0''" and "message_str data = ''NOTOK''"
  shows "snd (etherscan E params) =
           (if ci_contains (notok_detail E (result data)) ''rate limit''
            then Inl (HTTPException 429 (''Etherscan: '' @ notok_detail E (result data)))
            else Inl (HTTPException 502 (''Etherscan error: '' @ notok_detail E (result data))))
         \<and> (\<forall>s. result data = Some (Text s) \<longrightarrow> s \<noteq> [] \<longrightarrow> notok_detail E (result data) = s)"
  using assms etherscan_body [of E params data]
  by (simp add: contains_lower [OF lower_rate_limit] notok_detail_def)

theorem etherscan_notok_witness:
  "snd (etherscan (fixed_env (Body (text_body ''0'' ''NOTOK'' ''Max Rate Limit reached''))) Map.empty)
     = Inl (HTTPException 429 ''Etherscan: Max Rate Limit reached'')
   \<and> snd (etherscan (fixed_env (Body (text_body ''0'' ''NOTOK'' ''Invalid API Key''))) Map.empty)
     = Inl (HTTPException 502 ''Etherscan error: Invalid API Key'')"
proof -
  have a: "ci_contains ''Max Rate Limit reached'' ''rate limit''"
    by code_simp
  have b: "\<not> ci_contains ''Invalid API Key'' ''rate limit''"
    by code_simp
  have c: "notok_detail E (result (text_body st msg ''Max Rate Limit reached'')) = ''Max Rate Limit reached''"
    "notok_detail E (result (text_body st msg ''Invalid API Key'')) = ''Invalid API Key''" for E st msg
    by (simp_all add: notok_detail_def text_body_def)
  show ?thesis
    using etherscan_notok
      [of "fixed_env (Body (text_body ''0'' ''NOTOK'' ''Max Rate Limit reached''))" Map.empty
          "text_body ''0'' ''NOTOK'' ''Max Rate Limit reached''"]
      etherscan_notok
      [of "fixed_env (Body (text_body ''0'' ''NOTOK'' ''Invalid API Key''))" Map.empty
          "text_body ''0'' ''NOTOK'' ''Invalid API Key''"]
    by (simp add: configured_fixed_env answers_fixed_env a b c)
      (simp add: status_str_def message_str_def text_body_def)
qed

text \<open>
  C5: a body with status \<open>"0"\<close> whose message starts with \<open>"no transactions"\<close> in any case
  does not make \<open>_etherscan\<close> fail: the result is a success with an empty list.
\<close>

theorem etherscan_no_transactions:
  assumes "configured E" and "answers E params data"
    and "status_str data = ''0''" and "ci_starts (message_str data) ''no transactions''"
  shows "snd (etherscan E params)
           = Inr \<lparr>status = Some ''1'', message = None, result = Some (Records [])\<rparr>"
proof -
  have "message_str data \<noteq> ''NOTOK''"
    using ci_starts_length [OF assms(4)] by auto
  with assms etherscan_body [of E params data] show ?thesis
    by (simp add: startswith_lower [OF lower_no_transactions])
qed

theorem etherscan_no_transactions_witness:
  "snd (etherscan (fixed_env (Body (text_body ''0'' ''No transactions found'' ''''))) Map.empty)
     = Inr \<lparr>status = Some ''1'', message = None, result = Some (Records [])\<rparr>"
proof -
  have a: "ci_starts ''No transactions found'' ''no transactions''"
    by code_simp
  show ?thesis
    using etherscan_no_transactions
      [of "fixed_env (Body (text_body ''0'' ''No transactions found'' ''''))" Map.empty
          "text_body ''0'' ''No transactions found'' ''''"]
    by (simp add: configured_fixed_env answers_fixed_env)
      (simp add: status_str_def message_str_def text_body_def a)
qed

subsection \<open>Direction\<close>

text \<open>
  C9: when sender and recipient both equal the queried address up to case, the direction
  is \<open>"out"\<close>: the sender is compared first.
\<close>

theorem direction_self_transfer:
  assumes "ci_eq (or_empty from_addr) (or_empty me)" and "ci_eq (or_empty to_addr) (or_empty me)"
  shows "direction me from_addr to_addr = ''out''"
  using assms(1) by (simp add: direction_def lower_eq_iff)

theorem direction_self_transfer_witness:
  "ci_eq ''0xaB'' ''0xAb'' \<and> ci_eq ''0xAB'' ''0xAb''
   \<and> direction (Some ''0xAb'') (Some ''0xaB'') (Some ''0xAB'') = ''out''"
proof -
  have a: "ci_eq ''0xaB'' ''0xAb''" and b: "ci_eq ''0xAB'' ''0xAb''"
    by code_simp+
  show ?thesis
    using direction_self_transfer [of "Some ''0xaB''" "Some ''0xAb''" "Some ''0xAB''"] a b
    by (simp add: or_empty_def)
qed

end
